theory Spec2Isabelle
  imports Main
begin

section \<open>The configuration module \<^verbatim>\<open>config.py\<close>\<close>

text \<open>
  The whole program is one assignment of a dict display to a module-level name:
  \<^verbatim>\<open>
  snowflake_conn_prop = {
     "account": "",
     "user": "",
     "password": "",
     "role": "ACCOUNTADMIN",
     "database": "SCIKIT_LEARN",
     "schema": "PUBLIC",
     "warehouse": "LAB_SCIKIT_WH",
  }
  \<close>
  followed by two comment lines. The embedding keeps what Python does with it: the
  display is evaluated pair by pair into a dict (which remembers insertion order and
  rejects an unhashable key), and the dict is bound to the name in the namespace of the
  module. A consumer then looks the name up on the module.
\<close>

subsection \<open>Values, errors, dicts\<close>

text \<open>
  Only two kinds of value occur: strings and the dict. A dict is its item list in
  insertion order; no key occurs twice in a dict built by \<open>dict_setitem\<close>.
\<close>

datatype pyval = Str string | Dict "(pyval \<times> pyval) list"

datatype error = TypeError | AttributeError | ImportError

fun is_str :: "pyval \<Rightarrow> bool" where
  "is_str (Str s) = True"
| "is_str (Dict d) = False"

text \<open>A string can be a key; a dict cannot (\<^verbatim>\<open>TypeError: unhashable type: 'dict'\<close>).\<close>

fun hashable :: "pyval \<Rightarrow> bool" where
  "hashable (Str s) = True"
| "hashable (Dict d) = False"

text \<open>
  \<^verbatim>\<open>d[k] = v\<close>: a key already present keeps its position and takes the new value, a new
  key goes to the end. Module namespaces are dicts with string keys, so the function is
  polymorphic in the key.
\<close>

fun dict_setitem :: "('k \<times> 'v) list \<Rightarrow> 'k \<Rightarrow> 'v \<Rightarrow> ('k \<times> 'v) list" where
  "dict_setitem [] k v = [(k, v)]"
| "dict_setitem ((k', v') # d) k v =
     (if k' = k then (k', v) # d else (k', v') # dict_setitem d k v)"

text \<open>The dict display \<^verbatim>\<open>{k1: v1, ..., kn: vn}\<close>, evaluated left to right.\<close>

fun build_map :: "(pyval \<times> pyval) list \<Rightarrow> (pyval \<times> pyval) list \<Rightarrow> error + pyval" where
  "build_map d [] = Inr (Dict d)"
| "build_map d ((k, v) # items) =
     (if hashable k then build_map (dict_setitem d k v) items else Inl TypeError)"

text \<open>Enumerating a dict (\<^verbatim>\<open>list(d)\<close>, \<^verbatim>\<open>d.keys()\<close>, \<^verbatim>\<open>for k in d\<close>) and its values.\<close>

definition dict_keys :: "(pyval \<times> pyval) list \<Rightarrow> pyval list" where
  "dict_keys d = map fst d"

definition dict_values :: "(pyval \<times> pyval) list \<Rightarrow> pyval list" where
  "dict_values d = map snd d"

subsection \<open>The module\<close>

text \<open>The key and value expressions of the display, as written in the source.\<close>

definition snowflake_conn_prop_display :: "(pyval \<times> pyval) list" where
  "snowflake_conn_prop_display =
     [(Str ''account'', Str ''''),
      (Str ''user'', Str ''''),
      (Str ''password'', Str ''''),
      (Str ''role'', Str ''ACCOUNTADMIN''),
      (Str ''database'', Str ''SCIKIT_LEARN''),
      (Str ''schema'', Str ''PUBLIC''),
      (Str ''warehouse'', Str ''LAB_SCIKIT_WH'')]"

text \<open>
  The process the module is loaded in. What the module could consult: environment
  variables, files, a secret store. What the interpreter brings: the value it binds
  under \<^verbatim>\<open>__builtins__\<close>, the attributes of the module type (its data descriptors such as
  \<^verbatim>\<open>__class__\<close> and \<^verbatim>\<open>__dict__\<close>, and its other attributes such as \<^verbatim>\<open>__repr__\<close>), and what
  calling a module-level \<^verbatim>\<open>__getattr__\<close> hook with a name returns. And the namespace of
  the module, \<open>globals\<close>, in insertion order; before the module's code runs it holds
  what the import system has put there (\<^verbatim>\<open>__name__\<close>, \<^verbatim>\<open>__file__\<close>, ...).
\<close>

record process =
  environ :: "string \<rightharpoonup> string"
  files :: "string \<rightharpoonup> string"
  secrets :: "string \<rightharpoonup> string"
  builtins :: pyval
  type_data_attrs :: "string \<rightharpoonup> pyval"
  type_attrs :: "string \<rightharpoonup> pyval"
  call_hook :: "pyval \<Rightarrow> string \<Rightarrow> error + pyval"
  globals :: "(string \<times> pyval) list"

text \<open>A public name is one that does not start with an underscore.\<close>

fun is_public :: "string \<Rightarrow> bool" where
  "is_public [] = True"
| "is_public (c # cs) = (c \<noteq> CHR ''_'')"

text \<open>
  Before it runs any code in a namespace, the interpreter binds \<^verbatim>\<open>__builtins__\<close> there
  unless the name is bound already.
\<close>

definition with_builtins :: "process \<Rightarrow> (string \<times> pyval) list" where
  "with_builtins p =
     (case map_of (globals p) ''__builtins__'' of
        None \<Rightarrow> dict_setitem (globals p) ''__builtins__'' (builtins p)
      | Some b \<Rightarrow> globals p)"

text \<open>
  Running the code of the module in its namespace, the step of an import that executes
  this file: bind \<^verbatim>\<open>__builtins__\<close>, evaluate the display, bind the name. An exception of
  the display would leave the module unloaded. What the import system does around this
  step (finding the file, its bytecode cache, the entry in \<^verbatim>\<open>sys.modules\<close>) is not code
  of this file and has no part in \<open>module_load\<close>.
\<close>

definition module_load :: "process \<Rightarrow> error + process" where
  "module_load p =
     (case build_map [] snowflake_conn_prop_display of
        Inl e \<Rightarrow> Inl e
      | Inr d \<Rightarrow> Inr (p\<lparr>globals := dict_setitem (with_builtins p) ''snowflake_conn_prop'' d\<rparr>))"

text \<open>
  Every attribute of the module type starts with an underscore, so its tables are
  consulted for such names only.
\<close>

definition type_lookup :: "(string \<rightharpoonup> pyval) \<Rightarrow> string \<Rightarrow> pyval option" where
  "type_lookup tbl name = (if is_public name then None else tbl name)"

text \<open>
  \<^verbatim>\<open>config.<name>\<close> on the loaded module, in the order of attribute lookup: a data
  descriptor of the type, the namespace of the module, another attribute of the type, a
  \<^verbatim>\<open>__getattr__\<close> hook of the module if it has one, and \<^verbatim>\<open>AttributeError\<close> at last.
\<close>

definition module_getattr :: "process \<Rightarrow> string \<Rightarrow> error + pyval" where
  "module_getattr p name =
     (case type_lookup (type_data_attrs p) name of
        Some v \<Rightarrow> Inr v
      | None \<Rightarrow>
         (case map_of (globals p) name of
            Some v \<Rightarrow> Inr v
          | None \<Rightarrow>
             (case type_lookup (type_attrs p) name of
                Some v \<Rightarrow> Inr v
              | None \<Rightarrow>
                 (case map_of (globals p) ''__getattr__'' of
                    Some h \<Rightarrow> call_hook p h name
                  | None \<Rightarrow> Inl AttributeError))))"



text \<open>
  The one operation of the component, "read configuration": the lookup of the name. It
  returns the result and the process state after it.
\<close>

definition read_configuration :: "process \<Rightarrow> (error + pyval) \<times> process" where
  "read_configuration p = (module_getattr p ''snowflake_conn_prop'', p)"

text \<open>\<open>n\<close> reads in a row, each on the state the one before left.\<close>

fun reads :: "nat \<Rightarrow> process \<Rightarrow> (error + pyval) list \<times> process" where
  "reads 0 p = ([], p)"
| "reads (Suc n) p =
     (case read_configuration p of
        (r, p') \<Rightarrow> (case reads n p' of (rs, p'') \<Rightarrow> (r # rs, p'')))"

section \<open>Properties\<close>

subsection \<open>Auxiliary facts\<close>

lemma map_of_dict_setitem: "map_of (dict_setitem d k v) = (map_of d)(k \<mapsto> v)"
  by (induction d k v rule: dict_setitem.induct) (auto simp: fun_upd_twist)

lemma build_map_display:
  "build_map [] snowflake_conn_prop_display = Inr (Dict snowflake_conn_prop_display)"
  by (simp add: snowflake_conn_prop_display_def)

lemma module_load_eq:
  "module_load p =
     Inr (p\<lparr>globals := dict_setitem (with_builtins p) ''snowflake_conn_prop''
                          (Dict snowflake_conn_prop_display)\<rparr>)"
  by (simp add: module_load_def build_map_display)

lemma module_getattr_bound:
  "is_public name \<Longrightarrow>
   module_getattr (p\<lparr>globals := dict_setitem g name v\<rparr>) name = Inr v"
  by (simp add: module_getattr_def type_lookup_def map_of_dict_setitem)













lemma read_after_load:
  "read_configuration
     (p\<lparr>globals := dict_setitem g ''snowflake_conn_prop'' v\<rparr>) =
   (Inr v, p\<lparr>globals := dict_setitem g ''snowflake_conn_prop'' v\<rparr>)"
  by (simp add: read_configuration_def module_getattr_bound)


lemma reads_eq: "reads n p = (replicate n (fst (read_configuration p)), p)"
  by (induction n) (simp_all add: read_configuration_def)

subsection \<open>The claims\<close>

text \<open>
  C1. Reading the unmodified configuration returns exactly the mapping
  \<open>{account: "", user: "", password: "", role: "ACCOUNTADMIN", database: "SCIKIT_LEARN",
  schema: "PUBLIC", warehouse: "LAB_SCIKIT_WH"}\<close>: whatever process the module is loaded
  in, the load succeeds and the read on the loaded module returns the dict with these
  seven items, which as a mapping sends the seven keys to these values and has no other
  key.
\<close>

theorem read_returns_defaults:
  "\<exists>q cfg. module_load p = Inr q \<and>
     fst (read_configuration q) = Inr (Dict cfg) \<and>
     cfg = [(Str ''account'', Str ''''), (Str ''user'', Str ''''),
            (Str ''password'', Str ''''), (Str ''role'', Str ''ACCOUNTADMIN''),
            (Str ''database'', Str ''SCIKIT_LEARN''), (Str ''schema'', Str ''PUBLIC''),
            (Str ''warehouse'', Str ''LAB_SCIKIT_WH'')] \<and>
     map_of cfg =
       [Str ''account'' \<mapsto> Str '''', Str ''user'' \<mapsto> Str '''',
        Str ''password'' \<mapsto> Str '''', Str ''role'' \<mapsto> Str ''ACCOUNTADMIN'',
        Str ''database'' \<mapsto> Str ''SCIKIT_LEARN'', Str ''schema'' \<mapsto> Str ''PUBLIC'',
        Str ''warehouse'' \<mapsto> Str ''LAB_SCIKIT_WH'']"
proof -
  let ?cfg = "snowflake_conn_prop_display"
  let ?q = "p\<lparr>globals := dict_setitem (with_builtins p) ''snowflake_conn_prop'' (Dict ?cfg)\<rparr>"
  have load: "module_load p = Inr ?q"
    by (rule module_load_eq)
  have rd: "fst (read_configuration ?q) = Inr (Dict ?cfg)"
    by (simp add: read_after_load)
  have items: "?cfg = [(Str ''account'', Str ''''), (Str ''user'', Str ''''),
            (Str ''password'', Str ''''), (Str ''role'', Str ''ACCOUNTADMIN''),
            (Str ''database'', Str ''SCIKIT_LEARN''), (Str ''schema'', Str ''PUBLIC''),
            (Str ''warehouse'', Str ''LAB_SCIKIT_WH'')]"
    by (simp add: snowflake_conn_prop_display_def)
  have mp: "map_of ?cfg =
       [Str ''account'' \<mapsto> Str '''', Str ''user'' \<mapsto> Str '''',
        Str ''password'' \<mapsto> Str '''', Str ''role'' \<mapsto> Str ''ACCOUNTADMIN'',
        Str ''database'' \<mapsto> Str ''SCIKIT_LEARN'', Str ''schema'' \<mapsto> Str ''PUBLIC'',
        Str ''warehouse'' \<mapsto> Str ''LAB_SCIKIT_WH'']"
    by (rule ext) (simp add: snowflake_conn_prop_display_def)
  from load rd items mp show ?thesis
    by blast
qed

text \<open>
  C2. For every read of the configuration, its key set is exactly \<open>{account, user,
  password, role, database, schema, warehouse}\<close>, no more and no fewer, and no operation
  of the component adds or removes a key: after the load, any number \<open>n\<close> of reads all
  return the same dict, whose keys are these seven, each once, and leave the process as
  it was.
\<close>

theorem key_set_invariant:
  "\<exists>q cfg. module_load p = Inr q \<and>
     reads n q = (replicate n (Inr (Dict cfg)), q) \<and>
     set (dict_keys cfg) =
       {Str ''account'', Str ''user'', Str ''password'', Str ''role'',
        Str ''database'', Str ''schema'', Str ''warehouse''} \<and>
     distinct (dict_keys cfg) \<and> length (dict_keys cfg) = 7"
proof -
  let ?cfg = "snowflake_conn_prop_display"
  let ?q = "p\<lparr>globals := dict_setitem (with_builtins p) ''snowflake_conn_prop'' (Dict ?cfg)\<rparr>"
  have load: "module_load p = Inr ?q"
    by (rule module_load_eq)
  have rds: "reads n ?q = (replicate n (Inr (Dict ?cfg)), ?q)"
    by (simp add: reads_eq read_after_load)
  have ks: "set (dict_keys ?cfg) =
       {Str ''account'', Str ''user'', Str ''password'', Str ''role'',
        Str ''database'', Str ''schema'', Str ''warehouse''}"
    by (simp add: dict_keys_def snowflake_conn_prop_display_def)
  have dist: "distinct (dict_keys ?cfg)"
    by (simp add: dict_keys_def snowflake_conn_prop_display_def)
  have len: "length (dict_keys ?cfg) = 7"
    by (simp add: dict_keys_def snowflake_conn_prop_display_def)
  from load rds ks dist len show ?thesis
    by blast
qed

text \<open>
  C3. Every value in the configuration mapping, for each of the seven keys, is of string
  type: the dict a read returns has seven values, all of them strings, and the lookup of
  each of the seven keys gives a string.
\<close>

theorem values_are_strings:
  "\<exists>q cfg. module_load p = Inr q \<and>
     fst (read_configuration q) = Inr (Dict cfg) \<and>
     list_all is_str (dict_values cfg) \<and> length (dict_values cfg) = 7 \<and>
     list_all (\<lambda>k. case map_of cfg k of None \<Rightarrow> False | Some v \<Rightarrow> is_str v)
       [Str ''account'', Str ''user'', Str ''password'', Str ''role'',
        Str ''database'', Str ''schema'', Str ''warehouse'']"
proof -
  let ?cfg = "snowflake_conn_prop_display"
  let ?q = "p\<lparr>globals := dict_setitem (with_builtins p) ''snowflake_conn_prop'' (Dict ?cfg)\<rparr>"
  have load: "module_load p = Inr ?q"
    by (rule module_load_eq)
  have rd: "fst (read_configuration ?q) = Inr (Dict ?cfg)"
    by (simp add: read_after_load)
  have vs: "list_all is_str (dict_values ?cfg)"
    by (simp add: dict_values_def snowflake_conn_prop_display_def)
  have len: "length (dict_values ?cfg) = 7"
    by (simp add: dict_values_def snowflake_conn_prop_display_def)
  have each: "list_all (\<lambda>k. case map_of ?cfg k of None \<Rightarrow> False | Some v \<Rightarrow> is_str v)
       [Str ''account'', Str ''user'', Str ''password'', Str ''role'',
        Str ''database'', Str ''schema'', Str ''warehouse'']"
    by (simp add: snowflake_conn_prop_display_def)
  from load rd vs len each show ?thesis
    by blast
qed

text \<open>
  C4. The component defines no mutation operation and has no side effects: a read
  returns the process state it was given, so does any sequence of reads, and the mapping
  bound at module load is what every later read in the sequence still returns.
\<close>

theorem reads_leave_state_unchanged:
  "snd (read_configuration p) = p \<and> snd (reads n p) = p \<and>
   (\<exists>q. module_load p = Inr q \<and> snd (reads n q) = q \<and>
      fst (read_configuration (snd (reads n q))) = Inr (Dict snowflake_conn_prop_display))"
proof -
  let ?q = "p\<lparr>globals := dict_setitem (with_builtins p) ''snowflake_conn_prop''
                            (Dict snowflake_conn_prop_display)\<rparr>"
  have one: "snd (read_configuration p) = p"
    by (simp add: read_configuration_def)
  have many: "snd (reads n p) = p"
    by (simp add: reads_eq)
  have load: "module_load p = Inr ?q"
    by (rule module_load_eq)
  have same: "snd (reads n ?q) = ?q"
    by (simp add: reads_eq)
  have still: "fst (read_configuration (snd (reads n ?q))) =
      Inr (Dict snowflake_conn_prop_display)"
    unfolding same by (simp add: read_after_load)
  from one many load same still show ?thesis
    by blast
qed

text \<open>
  C5. The read is idempotent: a second read, made in the state the first one left,
  returns the same value as the first, and on the loaded module both return the mapping.
\<close>

theorem read_idempotent:
  "fst (read_configuration (snd (read_configuration p))) = fst (read_configuration p) \<and>
   (\<exists>q. module_load p = Inr q \<and>
      reads 2 q = ([Inr (Dict snowflake_conn_prop_display),
                    Inr (Dict snowflake_conn_prop_display)], q))"
proof -
  let ?q = "p\<lparr>globals := dict_setitem (with_builtins p) ''snowflake_conn_prop''
                            (Dict snowflake_conn_prop_display)\<rparr>"
  have twice: "fst (read_configuration (snd (read_configuration p))) =
      fst (read_configuration p)"
    by (simp add: read_configuration_def)
  have load: "module_load p = Inr ?q"
    by (rule module_load_eq)
  have two: "reads 2 ?q = ([Inr (Dict snowflake_conn_prop_display),
                    Inr (Dict snowflake_conn_prop_display)], ?q)"
    by (simp add: reads_eq read_after_load numeral_2_eq_2)
  from twice load two show ?thesis
    by blast
qed

text \<open>
  C6. The read never fails and performs no validation: whatever value \<open>v\<close> the name is
  bound to, in whatever namespace, the read returns \<open>v\<close> itself and not an error; and the
  mapping of the source, whose account and password are blank, is returned by the read
  as it is.
\<close>

theorem read_never_fails:
  "read_configuration (p\<lparr>globals := dict_setitem g ''snowflake_conn_prop'' v\<rparr>) =
     (Inr v, p\<lparr>globals := dict_setitem g ''snowflake_conn_prop'' v\<rparr>) \<and>
   (\<exists>q cfg. module_load p = Inr q \<and>
      fst (read_configuration q) = Inr (Dict cfg) \<and>
      map_of cfg (Str ''account'') = Some (Str '''') \<and>
      map_of cfg (Str ''password'') = Some (Str ''''))"
proof -
  let ?cfg = "snowflake_conn_prop_display"
  let ?q = "p\<lparr>globals := dict_setitem (with_builtins p) ''snowflake_conn_prop'' (Dict ?cfg)\<rparr>"
  have anyv: "read_configuration (p\<lparr>globals := dict_setitem g ''snowflake_conn_prop'' v\<rparr>) =
     (Inr v, p\<lparr>globals := dict_setitem g ''snowflake_conn_prop'' v\<rparr>)"
    by (rule read_after_load)
  have load: "module_load p = Inr ?q"
    by (rule module_load_eq)
  have rd: "fst (read_configuration ?q) = Inr (Dict ?cfg)"
    by (simp add: read_after_load)
  have acc: "map_of ?cfg (Str ''account'') = Some (Str '''')"
    by (simp add: snowflake_conn_prop_display_def)
  have pw: "map_of ?cfg (Str ''password'') = Some (Str '''')"
    by (simp add: snowflake_conn_prop_display_def)
  from anyv load rd acc pw show ?thesis
    by blast
qed

text \<open>
  C7. Reading is deterministic and independent of the environment: for any two processes
  \<open>p1\<close> and \<open>p2\<close>, whatever their environment variables, files, secret stores and
  earlier namespaces, both loads succeed and any reads on the two loaded modules return
  equal mappings.
\<close>

theorem read_independent_of_environment:
  "\<exists>q1 q2. module_load p1 = Inr q1 \<and> module_load p2 = Inr q2 \<and>
     fst (read_configuration q1) = fst (read_configuration q2) \<and>
     fst (reads n q1) = fst (reads n q2)"
proof -
  let ?v = "Dict snowflake_conn_prop_display"
  let ?q1 = "p1\<lparr>globals := dict_setitem (with_builtins p1) ''snowflake_conn_prop'' ?v\<rparr>"
  let ?q2 = "p2\<lparr>globals := dict_setitem (with_builtins p2) ''snowflake_conn_prop'' ?v\<rparr>"
  have l1: "module_load p1 = Inr ?q1"
    by (rule module_load_eq)
  have l2: "module_load p2 = Inr ?q2"
    by (rule module_load_eq)
  have r: "fst (read_configuration ?q1) = fst (read_configuration ?q2)"
    by (simp add: read_after_load)
  have rs: "fst (reads n ?q1) = fst (reads n ?q2)"
    by (simp add: reads_eq read_after_load)
  from l1 l2 r rs show ?thesis
    by blast
qed

text \<open>
  C8. Loading the module always succeeds: every key of the display is a string literal,
  hence hashable, so the display evaluates to the dict of its items without an exception,
  and the load returns a process and never an error.
\<close>

theorem module_load_succeeds:
  "(\<exists>q. module_load p = Inr q) \<and> module_load p \<noteq> Inl e \<and>
   build_map [] snowflake_conn_prop_display = Inr (Dict snowflake_conn_prop_display) \<and>
   list_all hashable (dict_keys snowflake_conn_prop_display) \<and>
   list_all is_str (dict_keys snowflake_conn_prop_display)"
proof -
  have ex: "\<exists>q. module_load p = Inr q"
    by (simp add: module_load_eq)
  have ne: "module_load p \<noteq> Inl e"
    by (simp add: module_load_eq)
  have h: "list_all hashable (dict_keys snowflake_conn_prop_display)"
    by (simp add: dict_keys_def snowflake_conn_prop_display_def)
  have s: "list_all is_str (dict_keys snowflake_conn_prop_display)"
    by (simp add: dict_keys_def snowflake_conn_prop_display_def)
  from ex ne build_map_display h s show ?thesis
    by blast
qed



text \<open>
  C10. Every enumeration of the mapping yields its keys in the insertion order account,
  user, password, role, database, schema, warehouse: after the load, each of any number
  of reads returns the same dict, and its key list is this list.
\<close>

theorem keys_in_insertion_order:
  "\<exists>q cfg. module_load p = Inr q \<and>
     reads n q = (replicate n (Inr (Dict cfg)), q) \<and>
     dict_keys cfg =
       [Str ''account'', Str ''user'', Str ''password'', Str ''role'',
        Str ''database'', Str ''schema'', Str ''warehouse'']"
proof -
  let ?cfg = "snowflake_conn_prop_display"
  let ?q = "p\<lparr>globals := dict_setitem (with_builtins p) ''snowflake_conn_prop'' (Dict ?cfg)\<rparr>"
  have load: "module_load p = Inr ?q"
    by (rule module_load_eq)
  have rds: "reads n ?q = (replicate n (Inr (Dict ?cfg)), ?q)"
    by (simp add: reads_eq read_after_load)
  have ks: "dict_keys ?cfg =
       [Str ''account'', Str ''user'', Str ''password'', Str ''role'',
        Str ''database'', Str ''schema'', Str ''warehouse'']"
    by (simp add: dict_keys_def snowflake_conn_prop_display_def)
  from load rds ks show ?thesis
    by blast
qed

end
